theory Spec2Isabelle
  imports Complex_Main
begin

section \<open>JavaScript values\<close>

text \<open>
  The plugin (src/index.ts) handles values whose TypeScript type is \<open>any\<close>: the store's
  answer and the delta record. They are modelled as the values JSON can carry, plus
  \<open>undefined\<close>, which is what reading an absent property gives. An object is an
  association list; reading a key takes its first binding. Numbers are real numbers: the
  plugin does no arithmetic on them and only tests them for truthiness, so the rounding of
  doubles plays no part (NaN and the infinities cannot occur in JSON).
\<close>

datatype jsval =
    JUndefined
  | JNull
  | JBool bool
  | JNum real
  | JStr string
  | JArr "jsval list"
  | JObj "(string \<times> jsval) list"

text \<open>
  A thrown value is any value: the \<open>catch\<close> clause binds \<open>error: any\<close>, and a promise
  can be rejected with anything, \<open>null\<close> and \<open>undefined\<close> included. The errors the
  runtime raises itself (TypeError, RangeError) are Error objects, with a name and a
  message.
\<close>

type_synonym thrown = jsval

definition Error_object :: "string \<Rightarrow> string \<Rightarrow> thrown" where
  "Error_object nm msg = JObj [(''name'', JStr nm), (''message'', JStr msg)]"

text \<open>ToBoolean: \<open>!v\<close> is \<open>\<not> truthy v\<close>.\<close>

fun truthy :: "jsval \<Rightarrow> bool" where
  "truthy JUndefined = False"
| "truthy JNull = False"
| "truthy (JBool b) = b"
| "truthy (JNum x) = (x \<noteq> 0)"
| "truthy (JStr s) = (s \<noteq> [])"
| "truthy (JArr xs) = True"
| "truthy (JObj kvs) = True"

text \<open>\<open>a || b\<close> on evaluated operands (every right operand in the plugin is pure).\<close>

definition js_or :: "jsval \<Rightarrow> jsval \<Rightarrow> jsval" where
  "js_or a b = (if truthy a then a else b)"

text \<open>
  \<open>o.k\<close> and \<open>o[k]\<close>: a TypeError on \<open>undefined\<close> and \<open>null\<close>, the bound value on an
  object, \<open>undefined\<close> where the key is absent. None of the keys the plugin reads is a
  built-in property of a string, number, boolean or array, so those give \<open>undefined\<close>.
\<close>

definition cannot_read :: "string \<Rightarrow> string \<Rightarrow> thrown" where
  "cannot_read what k =
     Error_object ''TypeError'' (''Cannot read properties of '' @ what @ '' (reading '' @ [CHR 0x27] @ k @ [CHR 0x27] @ '')'')"

fun get_prop :: "jsval \<Rightarrow> string \<Rightarrow> thrown + jsval" where
  "get_prop JUndefined k = Inl (cannot_read ''undefined'' k)"
| "get_prop JNull k = Inl (cannot_read ''null'' k)"
| "get_prop (JObj kvs) k = Inr (case map_of kvs k of None \<Rightarrow> JUndefined | Some v \<Rightarrow> v)"
| "get_prop v k = Inr JUndefined"

text \<open>\<open>o?.k\<close>: \<open>undefined\<close> on \<open>undefined\<close> and \<open>null\<close>, else as \<open>o.k\<close>; it never throws.\<close>

fun opt_prop :: "jsval \<Rightarrow> string \<Rightarrow> jsval" where
  "opt_prop (JObj kvs) k = (case map_of kvs k of None \<Rightarrow> JUndefined | Some v \<Rightarrow> v)"
| "opt_prop v k = JUndefined"

text \<open>
  An optional string (a query-string parameter, a configuration field): \<open>None\<close> is
  \<open>undefined\<close>. \<open>s || d\<close> takes the default for \<open>undefined\<close> and for the empty string.
\<close>

definition truthy_str :: "string option \<Rightarrow> bool" where
  "truthy_str s = (case s of None \<Rightarrow> False | Some x \<Rightarrow> x \<noteq> [])"

definition str_or :: "string option \<Rightarrow> string \<Rightarrow> string" where
  "str_or s d = (case s of None \<Rightarrow> d | Some x \<Rightarrow> if x \<noteq> [] then x else d)"

section \<open>Interval classification\<close>

definition CALENDAR_INTERVALS :: "string list" where
  "CALENDAR_INTERVALS = [''1m'', ''1h'', ''1d'', ''1w'', ''1M'', ''1q'', ''1y'']"

definition FIXED_INTERVALS :: "string list" where
  "FIXED_INTERVALS =
     [''1m'', ''2m'', ''5m'', ''10m'', ''15m'', ''20m'', ''30m'',
      ''1h'', ''2h'', ''3h'', ''4h'', ''5h'', ''6h'', ''8h'', ''12h'',
      ''1d'', ''2d'', ''3d'', ''7d'',
      ''1w'', ''2w'']"

datatype interval_type = Calendar | Fixed

record interval_config =
  ic_interval :: string
  ic_type :: interval_type

text \<open>
  \<open>getIntervalConfig\<close>. Its parameter is declared a string, and the test \<open>!interval\<close>
  also answers for \<open>undefined\<close>, which is \<open>None\<close> here. \<open>includes\<close> is membership.
\<close>

definition getIntervalConfig :: "string option \<Rightarrow> interval_config" where
  "getIntervalConfig interval =
     (case interval of
        None \<Rightarrow> \<lparr>ic_interval = ''1h'', ic_type = Calendar\<rparr>
      | Some i \<Rightarrow>
          if i = [] then \<lparr>ic_interval = ''1h'', ic_type = Calendar\<rparr>
          else if i \<in> set CALENDAR_INTERVALS then \<lparr>ic_interval = i, ic_type = Calendar\<rparr>
          else if i \<in> set FIXED_INTERVALS then \<lparr>ic_interval = i, ic_type = Fixed\<rparr>
          else \<lparr>ic_interval = ''1h'', ic_type = Calendar\<rparr>)"

section \<open>Dates\<close>

text \<open>
  The handler calls \<open>new Date(s).toISOString()\<close>, \<open>Date.now()\<close> and \<open>new Date()\<close>. These
  belong to the JavaScript runtime; they are modelled after ECMAScript's definitions
  (Day, DayFromYear, YearFromTime, MonthFromTime, DateFromTime, TimeClip, the date-time
  string format). A time value is a number of milliseconds since 1970-01-01T00:00:00Z; a
  Date object is its time value, \<open>None\<close> for the invalid date (NaN).
\<close>

definition msPerDay :: int where
  "msPerDay = 86400000"

definition Day :: "int \<Rightarrow> int" where
  "Day t = t div msPerDay"

definition TimeWithinDay :: "int \<Rightarrow> int" where
  "TimeWithinDay t = t mod msPerDay"

definition DayFromYear :: "int \<Rightarrow> int" where
  "DayFromYear y =
     365 * (y - 1970) + (y - 1969) div 4 - (y - 1901) div 100 + (y - 1601) div 400"

definition DaysInYear :: "int \<Rightarrow> int" where
  "DaysInYear y =
     (if y mod 400 = 0 then 366 else if y mod 100 = 0 then 365
      else if y mod 4 = 0 then 366 else 365)"

definition InLeapYear :: "int \<Rightarrow> int" where
  "InLeapYear y = (if DaysInYear y = 366 then 1 else 0)"

text \<open>
  The year of a day number: the largest \<open>y\<close> with \<open>DayFromYear y \<le> d\<close>. It is computed
  from the mean length of a year (146097 days in 400 years), then adjusted by one.
\<close>

definition YearFromDay :: "int \<Rightarrow> int" where
  "YearFromDay d =
     (let y = 1970 + (d * 400) div 146097
      in if DayFromYear (y + 1) \<le> d then y + 1
         else if DayFromYear y \<le> d then y
         else y - 1)"

definition YearFromTime :: "int \<Rightarrow> int" where
  "YearFromTime t = YearFromDay (Day t)"

definition DayWithinYear :: "int \<Rightarrow> int" where
  "DayWithinYear t = Day t - DayFromYear (YearFromTime t)"

text \<open>The first day within the year of month \<open>m\<close> (0 is January), \<open>l\<close> being InLeapYear.\<close>

definition MonthStart :: "int \<Rightarrow> int \<Rightarrow> int" where
  "MonthStart l m =
     (if m = 0 then 0 else if m = 1 then 31 else if m = 2 then 59 + l
      else if m = 3 then 90 + l else if m = 4 then 120 + l else if m = 5 then 151 + l
      else if m = 6 then 181 + l else if m = 7 then 212 + l else if m = 8 then 243 + l
      else if m = 9 then 273 + l else if m = 10 then 304 + l else 334 + l)"

definition MonthFromTime :: "int \<Rightarrow> int" where
  "MonthFromTime t =
     (let d = DayWithinYear t; l = InLeapYear (YearFromTime t)
      in if d < 31 then 0 else if d < 59 + l then 1 else if d < 90 + l then 2
         else if d < 120 + l then 3 else if d < 151 + l then 4 else if d < 181 + l then 5
         else if d < 212 + l then 6 else if d < 243 + l then 7 else if d < 273 + l then 8
         else if d < 304 + l then 9 else if d < 334 + l then 10 else 11)"

definition DateFromTime :: "int \<Rightarrow> int" where
  "DateFromTime t =
     DayWithinYear t - MonthStart (InLeapYear (YearFromTime t)) (MonthFromTime t) + 1"

definition HourFromTime :: "int \<Rightarrow> int" where
  "HourFromTime t = (t div 3600000) mod 24"

definition MinFromTime :: "int \<Rightarrow> int" where
  "MinFromTime t = (t div 60000) mod 60"

definition SecFromTime :: "int \<Rightarrow> int" where
  "SecFromTime t = (t div 1000) mod 60"

definition msFromTime :: "int \<Rightarrow> int" where
  "msFromTime t = t mod 1000"

text \<open>TimeClip: a time value lies within 8.64e15 ms of the epoch, or the date is invalid.\<close>

definition TimeClip :: "int \<Rightarrow> int option" where
  "TimeClip t = (if \<bar>t\<bar> \<le> 8640000000000000 then Some t else None)"

subsection \<open>Writing a date: toISOString\<close>

text \<open>The decimal digit of a number from 0 to 9 (every caller reduces modulo 10).\<close>

definition digit_char :: "int \<Rightarrow> char" where
  "digit_char n = ''0123456789'' ! nat n"

definition pad2 :: "int \<Rightarrow> string" where
  "pad2 n = [digit_char (n div 10 mod 10), digit_char (n mod 10)]"

definition pad3 :: "int \<Rightarrow> string" where
  "pad3 n = digit_char (n div 100 mod 10) # pad2 n"

definition pad4 :: "int \<Rightarrow> string" where
  "pad4 n = digit_char (n div 1000 mod 10) # pad3 n"

definition pad6 :: "int \<Rightarrow> string" where
  "pad6 n = digit_char (n div 100000 mod 10) # digit_char (n div 10000 mod 10) # pad4 n"

text \<open>Years 0 to 9999 are written with four digits, the others with a sign and six digits.\<close>

definition year_string :: "int \<Rightarrow> string" where
  "year_string y =
     (if 0 \<le> y \<and> y \<le> 9999 then pad4 y
      else if y < 0 then CHR ''-'' # pad6 (- y)
      else CHR ''+'' # pad6 y)"

definition iso_string :: "int \<Rightarrow> string" where
  "iso_string t =
     year_string (YearFromTime t) @ ''-'' @ pad2 (MonthFromTime t + 1) @ ''-''
       @ pad2 (DateFromTime t) @ ''T'' @ pad2 (HourFromTime t) @ '':''
       @ pad2 (MinFromTime t) @ '':'' @ pad2 (SecFromTime t) @ ''.''
       @ pad3 (msFromTime t) @ ''Z''"

text \<open>\<open>toISOString\<close> throws a RangeError on the invalid date.\<close>

definition toISOString :: "int option \<Rightarrow> thrown + string" where
  "toISOString d =
     (case d of
        None \<Rightarrow> Inl (Error_object ''RangeError'' ''Invalid time value'')
      | Some t \<Rightarrow> Inr (iso_string t))"

subsection \<open>Reading a date: new Date(string)\<close>

definition digit_table :: "(char \<times> int) list" where
  "digit_table =
     [(CHR ''0'', 0), (CHR ''1'', 1), (CHR ''2'', 2), (CHR ''3'', 3), (CHR ''4'', 4),
      (CHR ''5'', 5), (CHR ''6'', 6), (CHR ''7'', 7), (CHR ''8'', 8), (CHR ''9'', 9)]"

definition digit_val :: "char \<Rightarrow> int option" where
  "digit_val c = map_of digit_table c"

fun number_of_digits :: "int \<Rightarrow> string \<Rightarrow> int option" where
  "number_of_digits acc [] = Some acc"
| "number_of_digits acc (c # cs) =
     (case digit_val c of
        None \<Rightarrow> None
      | Some v \<Rightarrow> number_of_digits (10 * acc + v) cs)"

definition DaysInMonth :: "int \<Rightarrow> int \<Rightarrow> int" where
  "DaysInMonth y m =
     (if m = 2 then 28 + InLeapYear y
      else if m = 4 \<or> m = 6 \<or> m = 9 \<or> m = 11 then 30
      else 31)"

text \<open>
  The time value of the fields of a date and time in UTC, \<open>None\<close> when a field is out of
  its range (month 1 to 12, day within the month, hour 0 to 23, minute and second 0 to 59).
\<close>

definition utc_time :: "int \<Rightarrow> int \<Rightarrow> int \<Rightarrow> int \<Rightarrow> int \<Rightarrow> int \<Rightarrow> int \<Rightarrow> int option" where
  "utc_time y mo d h mi s ms =
     (if 1 \<le> mo \<and> mo \<le> 12 \<and> 1 \<le> d \<and> d \<le> DaysInMonth y mo
         \<and> h \<le> 23 \<and> mi \<le> 59 \<and> s \<le> 59
      then Some ((DayFromYear y + MonthStart (InLeapYear y) (mo - 1) + d - 1) * msPerDay
                   + h * 3600000 + mi * 60000 + s * 1000 + ms)
      else None)"

definition opt_bind :: "'a option \<Rightarrow> ('a \<Rightarrow> 'b option) \<Rightarrow> 'b option" where
  "opt_bind m f = (case m of None \<Rightarrow> None | Some x \<Rightarrow> f x)"

definition iso_fields :: "string \<Rightarrow> string \<Rightarrow> string \<Rightarrow> string \<Rightarrow> string \<Rightarrow> string \<Rightarrow> string \<Rightarrow> int option" where
  "iso_fields y mo d h mi s ms =
     opt_bind (number_of_digits 0 y) (\<lambda>yv.
     opt_bind (number_of_digits 0 mo) (\<lambda>mov.
     opt_bind (number_of_digits 0 d) (\<lambda>dv.
     opt_bind (number_of_digits 0 h) (\<lambda>hv.
     opt_bind (number_of_digits 0 mi) (\<lambda>miv.
     opt_bind (number_of_digits 0 s) (\<lambda>sv.
     opt_bind (number_of_digits 0 ms) (\<lambda>msv.
       utc_time yv mov dv hv miv sv msv)))))))"

text \<open>
  The two forms of ECMAScript's date-time string format that name every field down to the
  second and the time zone Z: \<open>YYYY-MM-DDTHH:mm:ssZ\<close> and \<open>YYYY-MM-DDTHH:mm:ss.sssZ\<close>.
  The result is \<open>None\<close> for every other string.
\<close>

definition parse_iso_utc :: "string \<Rightarrow> int option" where
  "parse_iso_utc str =
     (case str of
        [y1, y2, y3, y4, a, m1, m2, b, d1, d2, c, h1, h2, d, i1, i2, e, s1, s2, z] \<Rightarrow>
          if a = CHR ''-'' \<and> b = CHR ''-'' \<and> c = CHR ''T'' \<and> d = CHR '':'' \<and> e = CHR '':''
             \<and> z = CHR ''Z''
          then iso_fields [y1, y2, y3, y4] [m1, m2] [d1, d2] [h1, h2] [i1, i2] [s1, s2] []
          else None
      | [y1, y2, y3, y4, a, m1, m2, b, d1, d2, c, h1, h2, d, i1, i2, e, s1, s2, f, f1, f2, f3, z] \<Rightarrow>
          if a = CHR ''-'' \<and> b = CHR ''-'' \<and> c = CHR ''T'' \<and> d = CHR '':'' \<and> e = CHR '':''
             \<and> f = CHR ''.'' \<and> z = CHR ''Z''
          then iso_fields [y1, y2, y3, y4] [m1, m2] [d1, d2] [h1, h2] [i1, i2] [s1, s2] [f1, f2, f3]
          else None
      | _ \<Rightarrow> None)"

text \<open>
  The host: what the runtime and the machine decide. \<open>Date_parse_other\<close> is \<open>Date.parse\<close>
  on the strings outside the two forms above (other forms of the format, local times,
  and the formats an engine accepts on its own); \<open>clock k\<close> is the \<open>k\<close>-th reading of the
  system clock within one request, in milliseconds.
\<close>

record js_host =
  Date_parse_other :: "string \<Rightarrow> int option"
  clock :: "nat \<Rightarrow> int"

definition Date_parse :: "js_host \<Rightarrow> string \<Rightarrow> int option" where
  "Date_parse host str =
     (case parse_iso_utc str of
        Some t \<Rightarrow> Some t
      | None \<Rightarrow> Date_parse_other host str)"

text \<open>\<open>new Date(str)\<close> for a string and \<open>new Date(n)\<close> for a number: both clip.\<close>

definition Date_of_string :: "js_host \<Rightarrow> string \<Rightarrow> int option" where
  "Date_of_string host str = opt_bind (Date_parse host str) TimeClip"

definition Date_of_number :: "int \<Rightarrow> int option" where
  "Date_of_number n = TimeClip n"

section \<open>The route get_datapoints_histogram\<close>

record DelphioracleConfig =
  cfg_table :: "string option"
  cfg_contract :: "string option"

text \<open>
  The query string. \<open>size\<close> is declared a number, but the route has no schema, so what
  arrives is whatever the server parsed, a string as a rule; it is kept as a value and
  passed on as it is.
\<close>

record OracleDatapointsQuery =
  q_scope :: "string option"
  q_interval :: "string option"
  q_after :: "string option"
  q_before :: "string option"
  q_size :: jsval

text \<open>
  The server as the handler uses it: the chain's name and the store's \<open>search\<close>, which
  answers with a value or throws.
\<close>

record server =
  manager_chain :: string
  elastic_search :: "jsval \<Rightarrow> thrown + jsval"

definition try_bind :: "thrown + 'a \<Rightarrow> ('a \<Rightarrow> thrown + 'b) \<Rightarrow> thrown + 'b" where
  "try_bind m f = (case m of Inl e \<Rightarrow> Inl e | Inr x \<Rightarrow> f x)"

record timeRange =
  gte :: string
  lte :: string

text \<open>
  Building the time range. The clock is read only where a bound is missing, so the reading
  that gives \<open>lte\<close> is the second one when \<open>after\<close> is missing too, else the first.
\<close>

definition build_timeRange :: "js_host \<Rightarrow> OracleDatapointsQuery \<Rightarrow> thrown + timeRange" where
  "build_timeRange host query =
     try_bind
       (case q_after query of
          None \<Rightarrow> toISOString (Date_of_number (clock host 0 - 24 * 60 * 60 * 1000))
        | Some a \<Rightarrow>
            if a \<noteq> [] then toISOString (Date_of_string host a)
            else toISOString (Date_of_number (clock host 0 - 24 * 60 * 60 * 1000)))
       (\<lambda>g.
     try_bind
       (case q_before query of
          None \<Rightarrow> toISOString (Date_of_number (clock host (if truthy_str (q_after query) then 0 else 1)))
        | Some b \<Rightarrow>
            if b \<noteq> [] then toISOString (Date_of_string host b)
            else toISOString (Date_of_number (clock host (if truthy_str (q_after query) then 0 else 1))))
       (\<lambda>l. Inr \<lparr>gte = g, lte = l\<rparr>))"

definition dateHistogramConfig :: "interval_config \<Rightarrow> jsval" where
  "dateHistogramConfig intervalConfig =
     JObj ((''field'', JStr ''@timestamp'') #
       (if ic_type intervalConfig = Calendar
        then [(''calendar_interval'', JStr (ic_interval intervalConfig))]
        else [(''fixed_interval'', JStr (ic_interval intervalConfig))]))"

definition metric :: "string \<Rightarrow> string \<Rightarrow> jsval" where
  "metric operation field = JObj [(operation, JObj [(''field'', JStr field)])]"

definition term_filter :: "string \<Rightarrow> string \<Rightarrow> jsval" where
  "term_filter field v = JObj [(''term'', JObj [(field, JObj [(''value'', JStr v)])])]"

definition searchBody ::
  "interval_config \<Rightarrow> jsval \<Rightarrow> timeRange \<Rightarrow> string \<Rightarrow> string \<Rightarrow> string \<Rightarrow> (string \<times> jsval) list" where
  "searchBody intervalConfig sz tr contractName tableName scp =
     [(''aggs'', JObj [(''histogram'', JObj
         [(''date_histogram'', dateHistogramConfig intervalConfig),
          (''aggs'', JObj
             [(''average_price'', metric ''avg'' ''@datapoints.value''),
              (''min_price'', metric ''min'' ''@datapoints.value''),
              (''max_price'', metric ''max'' ''@datapoints.value''),
              (''median_price'', metric ''avg'' ''@datapoints.median'')])])]),
      (''size'', sz),
      (''query'', JObj [(''bool'', JObj [(''must'', JArr
         [JObj [(''range'', JObj [(''@timestamp'', JObj
            [(''format'', JStr ''strict_date_optional_time''),
             (''gte'', JStr (gte tr)),
             (''lte'', JStr (lte tr))])])],
          term_filter ''code'' contractName,
          term_filter ''table'' tableName,
          term_filter ''scope'' scp])])])]"

text \<open>The argument of \<open>elastic.search\<close>: the index pattern, then the body's fields.\<close>

definition search_request :: "server \<Rightarrow> (string \<times> jsval) list \<Rightarrow> jsval" where
  "search_request srv body = JObj ((''index'', JStr (manager_chain srv @ ''-delta-*'')) # body)"

record histogram_bucket =
  timestamp :: jsval
  doc_count :: jsval
  average_price :: jsval
  min_price :: jsval
  max_price :: jsval
  median_price :: jsval

text \<open>The function mapped over the store's buckets.\<close>

definition map_bucket :: "jsval \<Rightarrow> thrown + histogram_bucket" where
  "map_bucket bucket =
     try_bind (get_prop bucket ''key_as_string'') (\<lambda>key_as_string.
     try_bind (if truthy key_as_string then Inr key_as_string else get_prop bucket ''key'') (\<lambda>ts.
     try_bind (get_prop bucket ''doc_count'') (\<lambda>dc.
     try_bind (get_prop bucket ''average_price'') (\<lambda>av.
     try_bind (get_prop bucket ''min_price'') (\<lambda>mn.
     try_bind (get_prop bucket ''max_price'') (\<lambda>mx.
     try_bind (get_prop bucket ''median_price'') (\<lambda>md.
       Inr \<lparr>timestamp = ts,
            doc_count = dc,
            average_price = js_or (opt_prop av ''value'') JNull,
            min_price = js_or (opt_prop mn ''value'') JNull,
            max_price = js_or (opt_prop mx ''value'') JNull,
            median_price = js_or (opt_prop md ''value'') JNull\<rparr>)))))))"

text \<open>\<open>Array.prototype.map\<close>: the first bucket that throws ends the loop.\<close>

fun map_buckets :: "jsval list \<Rightarrow> thrown + histogram_bucket list" where
  "map_buckets [] = Inr []"
| "map_buckets (b # bs) =
     (case map_bucket b of
        Inl e \<Rightarrow> Inl e
      | Inr h \<Rightarrow> (case map_buckets bs of Inl e \<Rightarrow> Inl e | Inr hs \<Rightarrow> Inr (h # hs)))"

text \<open>
  \<open>results.aggregations?.histogram?.buckets\<close> guards the mapping; a truthy value that is
  not an array has no \<open>map\<close>, and calling it throws.
\<close>

definition extract_histogram :: "jsval \<Rightarrow> thrown + histogram_bucket list" where
  "extract_histogram results =
     try_bind (get_prop results ''aggregations'') (\<lambda>aggregations.
       let buckets = opt_prop (opt_prop aggregations ''histogram'') ''buckets''
       in if truthy buckets
          then (case buckets of
                  JArr bs \<Rightarrow> map_buckets bs
                | _ \<Rightarrow> Inl (Error_object ''TypeError''
                           ''results.aggregations.histogram.buckets.map is not a function''))
          else Inr [])"

record time_range_out =
  from_ts :: string
  to_ts :: string

record response =
  query_time_ms :: nat
  scope :: string
  contract :: string
  table :: string
  interval :: string
  time_range :: time_range_out
  total_documents :: jsval
  histogram :: "histogram_bucket list"

definition process_results ::
  "string \<Rightarrow> string \<Rightarrow> string \<Rightarrow> interval_config \<Rightarrow> timeRange \<Rightarrow> jsval \<Rightarrow> thrown + response" where
  "process_results scp contractName tableName intervalConfig tr results =
     try_bind (get_prop results ''hits'') (\<lambda>hits.
     try_bind (extract_histogram results) (\<lambda>hs.
       Inr \<lparr>query_time_ms = 0,
            scope = scp,
            contract = contractName,
            table = tableName,
            interval = ic_interval intervalConfig,
            time_range = \<lparr>from_ts = gte tr, to_ts = lte tr\<rparr>,
            total_documents = js_or (opt_prop hits ''total'') (JNum 0),
            histogram = hs\<rparr>))"

text \<open>
  The parameters the handler resolves from the plugin's configuration (\<open>this.baseConfig\<close>,
  which may be missing) and from the query string.
\<close>

definition contractName_of :: "DelphioracleConfig option \<Rightarrow> string" where
  "contractName_of baseConfig =
     str_or (case baseConfig of None \<Rightarrow> None | Some c \<Rightarrow> cfg_contract c) ''delphioracle''"

definition tableName_of :: "DelphioracleConfig option \<Rightarrow> string" where
  "tableName_of baseConfig =
     str_or (case baseConfig of None \<Rightarrow> None | Some c \<Rightarrow> cfg_table c) ''datapoints''"

definition scope_of :: "OracleDatapointsQuery \<Rightarrow> string" where
  "scope_of query = str_or (q_scope query) ''tlosusd''"

definition intervalConfig_of :: "OracleDatapointsQuery \<Rightarrow> interval_config" where
  "intervalConfig_of query = getIntervalConfig (Some (str_or (q_interval query) ''1h''))"

definition size_of :: "OracleDatapointsQuery \<Rightarrow> jsval" where
  "size_of query = js_or (q_size query) (JNum 0)"

text \<open>What the handler sends to the store, once the time range is built.\<close>

definition request_of ::
  "DelphioracleConfig option \<Rightarrow> server \<Rightarrow> OracleDatapointsQuery \<Rightarrow> timeRange \<Rightarrow> jsval" where
  "request_of baseConfig srv query tr =
     search_request srv
       (searchBody (intervalConfig_of query) (size_of query) tr
          (contractName_of baseConfig) (tableName_of baseConfig) (scope_of query))"

text \<open>The body of the \<open>try\<close> block: \<open>Inl\<close> is a thrown error, \<open>Inr\<close> the response sent.\<close>

definition try_block ::
  "DelphioracleConfig option \<Rightarrow> server \<Rightarrow> js_host \<Rightarrow> OracleDatapointsQuery \<Rightarrow> thrown + response" where
  "try_block baseConfig srv host query =
     try_bind (build_timeRange host query) (\<lambda>tr.
     try_bind (elastic_search srv (request_of baseConfig srv query tr)) (\<lambda>results.
       process_results (scope_of query) (contractName_of baseConfig) (tableName_of baseConfig)
         (intervalConfig_of query) tr results))"

text \<open>
  What the handler sends: the response, or the body of the \<open>catch\<close> block, whose message
  is the thrown value's \<open>message\<close> property. \<open>Unsent\<close> is a reply the handler did not send.
\<close>

record error_body =
  error :: string
  message :: jsval

datatype payload = Histogram response | Failure error_body | Unsent

record reply =
  status :: nat
  sent :: payload

text \<open>
  The requests the \<open>try\<close> block submits to the store: one, unless building the time
  range threw before.
\<close>

definition requests_sent ::
  "DelphioracleConfig option \<Rightarrow> server \<Rightarrow> js_host \<Rightarrow> OracleDatapointsQuery \<Rightarrow> jsval list" where
  "requests_sent baseConfig srv host query =
     (case build_timeRange host query of
        Inl e \<Rightarrow> []
      | Inr tr \<Rightarrow> [request_of baseConfig srv query tr])"

text \<open>
  The handler's outcome: the reply, what it wrote to the server's error log, what it asked
  the store, and the exception that escapes it, if any.

  The \<open>catch\<close> block logs the thrown value, calls \<open>reply.status(500)\<close> and then builds
  the body, reading \<open>error.message\<close>. On a thrown \<open>null\<close> or \<open>undefined\<close> that read
  throws a TypeError inside the \<open>catch\<close> block: the status is set, nothing is sent, and
  the TypeError escapes the handler.
\<close>

record outcome =
  replied :: reply
  logged :: "thrown list"
  searched :: "jsval list"
  escaped :: "thrown option"

definition get_datapoints_histogram ::
  "DelphioracleConfig option \<Rightarrow> server \<Rightarrow> js_host \<Rightarrow> OracleDatapointsQuery \<Rightarrow> outcome" where
  "get_datapoints_histogram baseConfig srv host query =
     (case try_block baseConfig srv host query of
        Inr r \<Rightarrow>
          \<lparr>replied = \<lparr>status = 200, sent = Histogram r\<rparr>,
           logged = [],
           searched = requests_sent baseConfig srv host query,
           escaped = None\<rparr>
      | Inl e \<Rightarrow>
          (case get_prop e ''message'' of
             Inr m \<Rightarrow>
               \<lparr>replied = \<lparr>status = 500,
                            sent = Failure \<lparr>error = ''Internal server error'', message = m\<rparr>\<rparr>,
                logged = [e],
                searched = requests_sent baseConfig srv host query,
                escaped = None\<rparr>
           | Inl t \<Rightarrow>
               \<lparr>replied = \<lparr>status = 500, sent = Unsent\<rparr>,
                logged = [e],
                searched = requests_sent baseConfig srv host query,
                escaped = Some t\<rparr>))"

text \<open>Reading a request the way the store does: the filter clauses and the interval.\<close>

definition must_clauses :: "jsval \<Rightarrow> jsval list" where
  "must_clauses req =
     (case opt_prop (opt_prop (opt_prop req ''query'') ''bool'') ''must'' of
        JArr cs \<Rightarrow> cs
      | _ \<Rightarrow> [])"

definition range_clause :: "string \<Rightarrow> string \<Rightarrow> jsval" where
  "range_clause g l =
     JObj [(''range'', JObj [(''@timestamp'', JObj
       [(''format'', JStr ''strict_date_optional_time''), (''gte'', JStr g), (''lte'', JStr l)])])]"

definition requested_interval :: "jsval \<Rightarrow> jsval" where
  "requested_interval req =
     (let dh = opt_prop (opt_prop (opt_prop req ''aggs'') ''histogram'') ''date_histogram''
      in js_or (opt_prop dh ''calendar_interval'') (opt_prop dh ''fixed_interval''))"

text \<open>Hosts and stores for the examples.\<close>

definition no_other_dates :: "string \<Rightarrow> int option" where
  "no_other_dates str = None"

definition ticking_clock :: "int \<Rightarrow> nat \<Rightarrow> int" where
  "ticking_clock t k = t + int k"

definition example_host :: js_host where
  "example_host = \<lparr>Date_parse_other = no_other_dates, clock = ticking_clock 1704067200000\<rparr>"

definition store_answering :: "jsval \<Rightarrow> jsval \<Rightarrow> thrown + jsval" where
  "store_answering results req = Inr results"

definition store_failing :: "thrown \<Rightarrow> jsval \<Rightarrow> thrown + jsval" where
  "store_failing e req = Inl e"

definition example_server :: "(jsval \<Rightarrow> thrown + jsval) \<Rightarrow> server" where
  "example_server store = \<lparr>manager_chain = ''telos'', elastic_search = store\<rparr>"

definition example_query :: "string option \<Rightarrow> string option \<Rightarrow> string option \<Rightarrow> OracleDatapointsQuery" where
  "example_query i a b =
     \<lparr>q_scope = None, q_interval = i, q_after = a, q_before = b, q_size = JUndefined\<rparr>"

section \<open>The delta handler\<close>

text \<open>
  A delta record is an object. \<open>o[k] = v\<close> replaces the binding of \<open>k\<close> or adds one;
  \<open>delete o[k]\<close> removes it.
\<close>

fun set_prop :: "(string \<times> jsval) list \<Rightarrow> string \<Rightarrow> jsval \<Rightarrow> (string \<times> jsval) list" where
  "set_prop [] k v = [(k, v)]"
| "set_prop ((k', v') # kvs) k v =
     (if k' = k then (k, v) # kvs else (k', v') # set_prop kvs k v)"

definition delete_prop :: "(string \<times> jsval) list \<Rightarrow> string \<Rightarrow> (string \<times> jsval) list" where
  "delete_prop kvs k = filter (\<lambda>kv. fst kv \<noteq> k) kvs"

definition delta_handler ::
  "string \<Rightarrow> (string \<times> jsval) list \<Rightarrow> thrown + (string \<times> jsval) list" where
  "delta_handler tableName delta =
     (let data = opt_prop (JObj delta) ''data''
      in try_bind (get_prop data ''value'') (\<lambda>v.
         try_bind (if truthy v then get_prop data ''median'' else Inr v) (\<lambda>vm.
         try_bind (if truthy vm then get_prop data ''owner'' else Inr vm) (\<lambda>vmo.
           if truthy vmo
           then try_bind (get_prop data ''owner'') (\<lambda>ow.
                try_bind (get_prop data ''value'') (\<lambda>va.
                try_bind (get_prop data ''median'') (\<lambda>me.
                  Inr (delete_prop
                         (set_prop delta (''@'' @ tableName)
                            (JObj [(''owner'', ow), (''value'', va), (''median'', me)]))
                         ''data''))))
           else Inr delta))))"

record HyperionDeltaHandler =
  dh_table :: string
  dh_contract :: string
  dh_mappings :: jsval
  dh_handler :: "(string \<times> jsval) list \<Rightarrow> thrown + (string \<times> jsval) list"

text \<open>The constructor: the list \<open>deltaHandlers\<close> of the plugin it builds.\<close>

definition deltaHandlers :: "DelphioracleConfig \<Rightarrow> HyperionDeltaHandler list" where
  "deltaHandlers config =
     (let tableName = str_or (cfg_table config) ''datapoints'';
          mappings = JObj [(''delta'', JObj [(''@'' @ tableName, JObj [(''properties'', JObj
            [(''value'', JObj [(''type'', JStr ''long'')]),
             (''owner'', JObj [(''type'', JStr ''keyword'')]),
             (''median'', JObj [(''type'', JStr ''long'')])])])])]
      in [\<lparr>dh_table = tableName,
           dh_contract = str_or (cfg_contract config) ''delphioracle'',
           dh_mappings = mappings,
           dh_handler = delta_handler tableName\<rparr>])"

section \<open>Example inputs\<close>

text \<open>Requests, store answers and delta records on which the model is evaluated.\<close>

definition january_query :: OracleDatapointsQuery where
  "january_query =
     example_query None (Some ''2024-01-01T00:00:00Z'') (Some ''2024-01-02T00:00:00Z'')"

definition default_query :: OracleDatapointsQuery where
  "default_query = example_query None None None"

definition bad_date_query :: OracleDatapointsQuery where
  "bad_date_query = example_query None (Some ''yesterday'') None"

definition unknown_interval_query :: OracleDatapointsQuery where
  "unknown_interval_query =
     example_query (Some ''3m'') (Some ''2024-01-01T00:00:00Z'') (Some ''2024-01-02T00:00:00Z'')"

definition empty_config :: DelphioracleConfig where
  "empty_config = \<lparr>cfg_table = None, cfg_contract = None\<rparr>"

definition five_hits :: jsval where
  "five_hits = JObj [(''hits'', JObj [(''total'', JNum 5)])]"

definition connection_refused :: thrown where
  "connection_refused = Error_object ''ConnectionError'' ''connect ECONNREFUSED''"

text \<open>A delta record whose payload has the three fields, the value being 0.\<close>

definition zero_value_payload :: jsval where
  "zero_value_payload =
     JObj [(''id'', JNum 8), (''owner'', JStr ''oracle1''), (''value'', JNum 0),
           (''median'', JNum 2490), (''timestamp'', JStr ''2024-01-01T00:01:00.000'')]"

definition zero_value_delta :: "(string \<times> jsval) list" where
  "zero_value_delta =
     [(''code'', JStr ''delphioracle''), (''table'', JStr ''datapoints''),
      (''scope'', JStr ''tlosusd''), (''data'', zero_value_payload)]"

text \<open>A store answer with one bucket of two documents whose values and medians are all 0.\<close>

definition zero_bucket :: jsval where
  "zero_bucket =
     JObj [(''key_as_string'', JStr ''2024-01-01T00:00:00.000Z''),
           (''key'', JNum 1704067200000),
           (''doc_count'', JNum 2),
           (''average_price'', JObj [(''value'', JNum 0)]),
           (''min_price'', JObj [(''value'', JNum 0)]),
           (''max_price'', JObj [(''value'', JNum 0)]),
           (''median_price'', JObj [(''value'', JNum 0)])]"

definition zero_results :: jsval where
  "zero_results =
     JObj [(''hits'', JObj [(''total'', JNum 2)]),
           (''aggregations'', JObj [(''histogram'', JObj [(''buckets'', JArr [zero_bucket])])])]"

definition example_payload :: jsval where
  "example_payload =
     JObj [(''id'', JNum 7), (''owner'', JStr ''oracle1''), (''value'', JNum 2500),
           (''median'', JNum 2490), (''timestamp'', JStr ''2024-01-01T00:00:00.000'')]"

definition example_delta :: "(string \<times> jsval) list" where
  "example_delta =
     [(''code'', JStr ''delphioracle''), (''table'', JStr ''datapoints''),
      (''scope'', JStr ''tlosusd''), (''data'', example_payload)]"

section \<open>Evaluating the model\<close>

lemma try_bind_Inl [simp]: "try_bind (Inl e) f = Inl e"
  by (simp add: try_bind_def)

lemma try_bind_Inr [simp]: "try_bind (Inr x) f = f x"
  by (simp add: try_bind_def)

lemma try_bind_eq_Inr: "try_bind m f = Inr y \<longleftrightarrow> (\<exists>x. m = Inr x \<and> f x = Inr y)"
  by (cases m) simp_all

lemmas calendar_defs =
  msPerDay_def Day_def DayFromYear_def DaysInYear_def InLeapYear_def YearFromDay_def
  YearFromTime_def DayWithinYear_def MonthStart_def MonthFromTime_def DateFromTime_def
  HourFromTime_def MinFromTime_def SecFromTime_def msFromTime_def

lemmas writing_defs =
  iso_string_def year_string_def pad2_def pad3_def pad4_def pad6_def digit_char_def

lemmas reading_defs =
  parse_iso_utc_def iso_fields_def opt_bind_def digit_val_def digit_table_def utc_time_def
  DaysInMonth_def

subsection \<open>The year of a day\<close>

text \<open>
  \<open>YearFromDay\<close> meets ECMAScript's definition of YearFromTime: the year it returns
  starts on or before the day, and the next year starts after it.
\<close>

lemma div_bounds:
  fixes a k :: int
  assumes "0 < k"
  shows "k * (a div k) \<le> a" and "a < k * (a div k) + k"
proof -
  have "a = k * (a div k) + a mod k" by simp
  moreover have "0 \<le> a mod k" and "a mod k < k" using assms by simp_all
  ultimately show "k * (a div k) \<le> a" and "a < k * (a div k) + k" by linarith+
qed

lemma DayFromYear_bounds:
  "146097 * y - 287811596 \<le> 400 * DayFromYear y"
  "400 * DayFromYear y \<le> 146097 * y - 287810501"
proof -
  define a where "a = (y - 1969) div 4"
  define b where "b = (y - 1901) div 100"
  define c where "c = (y - 1601) div 400"
  have d: "400 * DayFromYear y = 146000 * y - 287620000 + 400 * a - 400 * b + 400 * c"
    by (simp add: DayFromYear_def a_def b_def c_def)
  have e: "4 * a \<le> y - 1969" "y - 1969 < 4 * a + 4"
    "100 * b \<le> y - 1901" "y - 1901 < 100 * b + 100"
    "400 * c \<le> y - 1601" "y - 1601 < 400 * c + 400"
    unfolding a_def b_def c_def by (simp_all add: div_bounds)
  from e show "146097 * y - 287811596 \<le> 400 * DayFromYear y"
    unfolding d by linarith
  from e show "400 * DayFromYear y \<le> 146097 * y - 287810501"
    unfolding d by linarith
qed

lemma YearFromDay_bounds:
  "DayFromYear (YearFromDay d) \<le> d" "d < DayFromYear (YearFromDay d + 1)"
proof -
  define q where "q = (d * 400) div 146097"
  define y where "y = 1970 + q"
  have q: "146097 * q \<le> 400 * d" "400 * d < 146097 * q + 146097"
    using div_bounds [of 146097 "d * 400"] unfolding q_def by linarith+
  have "400 * DayFromYear (y - 1) \<le> 146097 * (y - 1) - 287810501"
    by (rule DayFromYear_bounds)
  moreover have "146097 * (y - 1) = 146097 * q + 287664993"
    by (simp add: y_def)
  ultimately have lo: "DayFromYear (y - 1) \<le> d"
    using q by linarith
  have "146097 * (y + 1 + 1) - 287811596 \<le> 400 * DayFromYear (y + 1 + 1)"
    by (rule DayFromYear_bounds)
  moreover have "146097 * (y + 1 + 1) = 146097 * q + 288103284"
    by (simp add: y_def)
  ultimately have hi: "d < DayFromYear (y + 1 + 1)"
    using q by linarith
  have yd: "YearFromDay d =
      (if DayFromYear (y + 1) \<le> d then y + 1 else if DayFromYear y \<le> d then y else y - 1)"
    by (simp add: YearFromDay_def Let_def y_def q_def)
  show "DayFromYear (YearFromDay d) \<le> d"
    using lo unfolding yd by simp
  show "d < DayFromYear (YearFromDay d + 1)"
    using hi unfolding yd by (simp add: not_le)
qed

subsection \<open>Dates of the examples\<close>

lemma parse_first_of_january: "parse_iso_utc ''2024-01-01T00:00:00Z'' = Some 1704067200000"
  by (simp add: reading_defs calendar_defs)

lemma parse_second_of_january: "parse_iso_utc ''2024-01-02T00:00:00Z'' = Some 1704153600000"
  by (simp add: reading_defs calendar_defs)

lemma iso_first_of_january: "iso_string 1704067200000 = ''2024-01-01T00:00:00.000Z''"
  by (simp add: writing_defs calendar_defs Let_def)

lemma iso_second_of_january: "iso_string 1704153600000 = ''2024-01-02T00:00:00.000Z''"
  by (simp add: writing_defs calendar_defs Let_def)

lemma iso_last_of_december: "iso_string 1703980800000 = ''2023-12-31T00:00:00.000Z''"
  by (simp add: writing_defs calendar_defs Let_def)

lemma iso_last_of_december_1: "iso_string 1703980800001 = ''2023-12-31T00:00:00.001Z''"
  by (simp add: writing_defs calendar_defs Let_def)

lemma iso_first_of_january_1: "iso_string 1704067200001 = ''2024-01-01T00:00:00.001Z''"
  by (simp add: writing_defs calendar_defs Let_def)

lemma new_Date_first_of_january:
  "toISOString (Date_of_string host ''2024-01-01T00:00:00Z'') = Inr ''2024-01-01T00:00:00.000Z''"
  by (simp add: toISOString_def Date_of_string_def Date_parse_def parse_first_of_january
      opt_bind_def TimeClip_def iso_first_of_january)

lemma new_Date_second_of_january:
  "toISOString (Date_of_string host ''2024-01-02T00:00:00Z'') = Inr ''2024-01-02T00:00:00.000Z''"
  by (simp add: toISOString_def Date_of_string_def Date_parse_def parse_second_of_january
      opt_bind_def TimeClip_def iso_second_of_january)

lemma toISOString_in_range:
  "\<bar>t\<bar> \<le> 8640000000000000 \<Longrightarrow> toISOString (Date_of_number t) = Inr (iso_string t)"
  by (simp add: toISOString_def Date_of_number_def TimeClip_def)

subsection \<open>The time range\<close>

lemma build_timeRange_january:
  assumes "q_after query = Some ''2024-01-01T00:00:00Z''"
    and "q_before query = Some ''2024-01-02T00:00:00Z''"
  shows "build_timeRange host query =
           Inr \<lparr>gte = ''2024-01-01T00:00:00.000Z'', lte = ''2024-01-02T00:00:00.000Z''\<rparr>"
  using assms
  by (simp add: build_timeRange_def new_Date_first_of_january new_Date_second_of_january)

lemma build_timeRange_default:
  assumes "\<not> truthy_str (q_after query)" and "\<not> truthy_str (q_before query)"
    and "\<bar>clock host 0 - 24 * 60 * 60 * 1000\<bar> \<le> 8640000000000000"
    and "\<bar>clock host 1\<bar> \<le> 8640000000000000"
  shows "build_timeRange host query =
           Inr \<lparr>gte = iso_string (clock host 0 - 24 * 60 * 60 * 1000),
                lte = iso_string (clock host 1)\<rparr>"
  using assms
  by (auto simp: build_timeRange_def truthy_str_def toISOString_in_range split: option.splits)

lemma january_timeRange:
  "build_timeRange example_host january_query =
     Inr \<lparr>gte = ''2024-01-01T00:00:00.000Z'', lte = ''2024-01-02T00:00:00.000Z''\<rparr>"
  by (rule build_timeRange_january) (simp_all add: january_query_def example_query_def)

lemma unknown_interval_timeRange:
  "build_timeRange example_host unknown_interval_query =
     Inr \<lparr>gte = ''2024-01-01T00:00:00.000Z'', lte = ''2024-01-02T00:00:00.000Z''\<rparr>"
  by (rule build_timeRange_january) (simp_all add: unknown_interval_query_def example_query_def)

lemma default_timeRange:
  "build_timeRange example_host default_query =
     Inr \<lparr>gte = ''2023-12-31T00:00:00.000Z'', lte = ''2024-01-01T00:00:00.001Z''\<rparr>"
  by (simp add: default_query_def example_query_def example_host_def ticking_clock_def
      build_timeRange_def truthy_str_def toISOString_def Date_of_number_def TimeClip_def
      iso_first_of_january_1 iso_last_of_december)

lemma bad_date_timeRange:
  "build_timeRange example_host bad_date_query = Inl (Error_object ''RangeError'' ''Invalid time value'')"
  by (simp add: build_timeRange_def bad_date_query_def example_query_def toISOString_def
      Date_of_string_def Date_parse_def parse_iso_utc_def example_host_def no_other_dates_def
      opt_bind_def)

subsection \<open>The request and the reply\<close>

lemma must_clauses_request_of:
  "must_clauses (request_of baseConfig srv query tr) =
     [range_clause (gte tr) (lte tr),
      term_filter ''code'' (contractName_of baseConfig),
      term_filter ''table'' (tableName_of baseConfig),
      term_filter ''scope'' (scope_of query)]"
  by (simp add: must_clauses_def request_of_def search_request_def searchBody_def range_clause_def)

lemma sent_Histogram_iff:
  "sent (replied (get_datapoints_histogram baseConfig srv host query)) = Histogram r
     \<longleftrightarrow> try_block baseConfig srv host query = Inr r"
  by (simp add: get_datapoints_histogram_def split: sum.splits)

lemma searched_eq:
  "searched (get_datapoints_histogram baseConfig srv host query)
     = requests_sent baseConfig srv host query"
  by (simp add: get_datapoints_histogram_def split: sum.splits)

lemma requests_sent_cases:
  "requests_sent baseConfig srv host query = [] \<or>
   (\<exists>tr. build_timeRange host query = Inr tr
      \<and> requests_sent baseConfig srv host query = [request_of baseConfig srv query tr])"
  by (simp add: requests_sent_def split: sum.splits)

lemma searched_request:
  assumes "req \<in> set (searched (get_datapoints_histogram baseConfig srv host query))"
  shows "\<exists>tr. build_timeRange host query = Inr tr \<and> req = request_of baseConfig srv query tr"
  using assms requests_sent_cases [of baseConfig srv host query]
  by (auto simp: searched_eq)

lemma process_results_fields:
  assumes "process_results scp c t ic tr results = Inr r"
  shows "scope r = scp \<and> contract r = c \<and> table r = t \<and> interval r = ic_interval ic
         \<and> time_range r = \<lparr>from_ts = gte tr, to_ts = lte tr\<rparr>"
  using assms by (auto simp: process_results_def try_bind_eq_Inr)

lemma try_block_fields:
  assumes "try_block baseConfig srv host query = Inr r"
  shows "\<exists>tr. build_timeRange host query = Inr tr
           \<and> time_range r = \<lparr>from_ts = gte tr, to_ts = lte tr\<rparr>
           \<and> scope r = scope_of query \<and> contract r = contractName_of baseConfig
           \<and> table r = tableName_of baseConfig
           \<and> interval r = ic_interval (intervalConfig_of query)"
  using assms by (auto simp: try_block_def try_bind_eq_Inr dest: process_results_fields)

lemma try_block_store_failure:
  assumes "build_timeRange host query = Inr tr"
    and "elastic_search srv (request_of baseConfig srv query tr) = Inl e"
  shows "try_block baseConfig srv host query = Inl e"
  using assms by (simp add: try_block_def)

lemma store_answer_outcome:
  assumes "build_timeRange host query = Inr tr"
    and "process_results (scope_of query) (contractName_of baseConfig) (tableName_of baseConfig)
           (intervalConfig_of query) tr results = Inr r"
  shows "get_datapoints_histogram baseConfig (example_server (store_answering results)) host query =
     \<lparr>replied = \<lparr>status = 200, sent = Histogram r\<rparr>,
      logged = [],
      searched = [request_of baseConfig (example_server (store_answering results)) query tr],
      escaped = None\<rparr>"
  using assms
  by (simp add: get_datapoints_histogram_def try_block_def requests_sent_def
      example_server_def store_answering_def)

lemma five_hits_outcome:
  assumes "build_timeRange host query = Inr tr"
  shows "get_datapoints_histogram baseConfig (example_server (store_answering five_hits)) host query =
     \<lparr>replied = \<lparr>status = 200, sent = Histogram
         \<lparr>query_time_ms = 0, scope = scope_of query, contract = contractName_of baseConfig,
          table = tableName_of baseConfig, interval = ic_interval (intervalConfig_of query),
          time_range = \<lparr>from_ts = gte tr, to_ts = lte tr\<rparr>,
          total_documents = JNum 5, histogram = []\<rparr>\<rparr>,
      logged = [],
      searched = [request_of baseConfig (example_server (store_answering five_hits)) query tr],
      escaped = None\<rparr>"
proof (rule store_answer_outcome [OF assms])
  show "process_results (scope_of query) (contractName_of baseConfig) (tableName_of baseConfig)
       (intervalConfig_of query) tr five_hits
     = Inr \<lparr>query_time_ms = 0, scope = scope_of query, contract = contractName_of baseConfig,
          table = tableName_of baseConfig, interval = ic_interval (intervalConfig_of query),
          time_range = \<lparr>from_ts = gte tr, to_ts = lte tr\<rparr>,
          total_documents = JNum 5, histogram = []\<rparr>"
    by (simp add: process_results_def five_hits_def extract_histogram_def js_or_def)
qed

lemma example_parameters:
  "scope_of january_query = ''tlosusd''"
  "scope_of default_query = ''tlosusd''"
  "scope_of unknown_interval_query = ''tlosusd''"
  "contractName_of None = ''delphioracle''"
  "tableName_of None = ''datapoints''"
  "contractName_of (Some empty_config) = ''delphioracle''"
  "tableName_of (Some empty_config) = ''datapoints''"
  by (simp_all add: scope_of_def contractName_of_def tableName_of_def str_or_def
      january_query_def default_query_def unknown_interval_query_def example_query_def
      empty_config_def)

lemma example_intervals:
  "intervalConfig_of january_query = \<lparr>ic_interval = ''1h'', ic_type = Calendar\<rparr>"
  "intervalConfig_of default_query = \<lparr>ic_interval = ''1h'', ic_type = Calendar\<rparr>"
  "intervalConfig_of unknown_interval_query = \<lparr>ic_interval = ''1h'', ic_type = Calendar\<rparr>"
  by (simp_all add: intervalConfig_of_def str_or_def getIntervalConfig_def
      january_query_def default_query_def unknown_interval_query_def example_query_def
      CALENDAR_INTERVALS_def FIXED_INTERVALS_def)

subsection \<open>The whitelists\<close>

lemma calendar_nonempty: "i \<in> set CALENDAR_INTERVALS \<Longrightarrow> i \<noteq> []"
  by (auto simp: CALENDAR_INTERVALS_def)

lemma fixed_nonempty: "i \<in> set FIXED_INTERVALS \<Longrightarrow> i \<noteq> []"
  by (auto simp: FIXED_INTERVALS_def)

lemma calendar_inter_fixed:
  "set CALENDAR_INTERVALS \<inter> set FIXED_INTERVALS = {''1m'', ''1h'', ''1d'', ''1w''}"
  by (auto simp: CALENDAR_INTERVALS_def FIXED_INTERVALS_def)

lemma interval_in_whitelists:
  "ic_interval (getIntervalConfig x) \<in> set CALENDAR_INTERVALS \<union> set FIXED_INTERVALS"
proof -
  have "''1h'' \<in> set CALENDAR_INTERVALS" by (simp add: CALENDAR_INTERVALS_def)
  then show ?thesis
    by (auto simp: getIntervalConfig_def split: option.splits)
qed

lemma whitelisted_nonempty:
  "i \<in> set CALENDAR_INTERVALS \<union> set FIXED_INTERVALS \<Longrightarrow> i \<noteq> []"
  using calendar_nonempty fixed_nonempty by auto

lemma requested_interval_request_of:
  "requested_interval (request_of baseConfig srv query tr)
     = JStr (ic_interval (intervalConfig_of query))"
proof -
  have "ic_interval (intervalConfig_of query) \<noteq> []"
    unfolding intervalConfig_of_def
    by (rule whitelisted_nonempty) (rule interval_in_whitelists)
  then show ?thesis
    by (simp add: requested_interval_def request_of_def search_request_def searchBody_def
        dateHistogramConfig_def js_or_def Let_def)
qed

lemma intervalConfig_of_unknown:
  assumes "q_interval query = Some t"
    and "t \<notin> set CALENDAR_INTERVALS" and "t \<notin> set FIXED_INTERVALS"
  shows "ic_interval (intervalConfig_of query) = ''1h''"
  using assms by (simp add: intervalConfig_of_def str_or_def getIntervalConfig_def)

subsection \<open>Buckets\<close>

text \<open>
  What the mapping does with a bucket that is an object: each statistic is the bucket's
  \<open>value\<close> for it when that value is truthy, and \<open>null\<close> otherwise.
\<close>

lemma map_bucket_statistics:
  assumes "bucket = JObj kvs"
  shows "\<exists>h. map_bucket bucket = Inr h
     \<and> average_price h = js_or (opt_prop (opt_prop bucket ''average_price'') ''value'') JNull
     \<and> min_price h = js_or (opt_prop (opt_prop bucket ''min_price'') ''value'') JNull
     \<and> max_price h = js_or (opt_prop (opt_prop bucket ''max_price'') ''value'') JNull
     \<and> median_price h = js_or (opt_prop (opt_prop bucket ''median_price'') ''value'') JNull"
  using assms by (simp add: map_bucket_def)

lemma missing_median_is_null:
  "map_bucket (JObj [(''key'', JNum 1704067200000), (''doc_count'', JNum 3),
                     (''average_price'', JObj [(''value'', JNum 10)])]) =
     Inr \<lparr>timestamp = JNum 1704067200000, doc_count = JNum 3,
          average_price = JNum 10, min_price = JNull, max_price = JNull, median_price = JNull\<rparr>"
  by (simp add: map_bucket_def js_or_def)

lemma map_zero_bucket:
  "map_bucket zero_bucket =
     Inr \<lparr>timestamp = JStr ''2024-01-01T00:00:00.000Z'', doc_count = JNum 2,
          average_price = JNull, min_price = JNull, max_price = JNull, median_price = JNull\<rparr>"
  by (simp add: map_bucket_def zero_bucket_def js_or_def)

subsection \<open>Objects\<close>

lemma map_of_set_prop:
  "map_of (set_prop kvs k v) k' = (if k' = k then Some v else map_of kvs k')"
  by (induction kvs) auto

lemma map_of_delete_prop:
  "map_of (delete_prop kvs k) k' = (if k' = k then None else map_of kvs k')"
  unfolding delete_prop_def by (induction kvs) auto

lemma truthy_opt_prop_object:
  "truthy (opt_prop d k) \<Longrightarrow> \<exists>kvs. d = JObj kvs"
  by (cases d) simp_all

lemma delta_handler_rewrites:
  assumes data: "map_of delta ''data'' = Some data"
    and v: "truthy (opt_prop data ''value'')"
    and m: "truthy (opt_prop data ''median'')"
    and ow: "truthy (opt_prop data ''owner'')"
  shows "delta_handler tableName delta =
     Inr (delete_prop
            (set_prop delta (''@'' @ tableName)
               (JObj [(''owner'', opt_prop data ''owner''),
                      (''value'', opt_prop data ''value''),
                      (''median'', opt_prop data ''median'')]))
            ''data'')"
proof -
  from v obtain kvs where d: "data = JObj kvs"
    using truthy_opt_prop_object by blast
  show ?thesis
    using data v m ow unfolding d
    by (simp add: delta_handler_def Let_def)
qed

section \<open>The claims\<close>

subsection \<open>Interval classification\<close>

text \<open>
  Claim C1, as stated, fails: the token 1h is in both whitelists, and the classifier,
  which looks in the calendar list first, returns it as a calendar interval.
\<close>

theorem whitelists_overlap_counterexample:
  "''1h'' \<in> set CALENDAR_INTERVALS \<and> ''1h'' \<in> set FIXED_INTERVALS
     \<and> getIntervalConfig (Some ''1h'') = \<lparr>ic_interval = ''1h'', ic_type = Calendar\<rparr>
     \<and> getIntervalConfig (Some ''1h'') \<noteq> \<lparr>ic_interval = ''1h'', ic_type = Fixed\<rparr>"
  by (simp add: getIntervalConfig_def CALENDAR_INTERVALS_def FIXED_INTERVALS_def)

text \<open>
  Claim C1, amended: the two whitelists share exactly the tokens 1m, 1h, 1d and 1w; every
  token of the fixed whitelist that is not in the calendar whitelist is classified as
  (token, Fixed), and each of the four shared tokens as (token, Calendar).
\<close>

theorem fixed_only_classified_fixed:
  "set CALENDAR_INTERVALS \<inter> set FIXED_INTERVALS = {''1m'', ''1h'', ''1d'', ''1w''}
   \<and> (\<forall>t \<in> set FIXED_INTERVALS - set CALENDAR_INTERVALS.
         getIntervalConfig (Some t) = \<lparr>ic_interval = t, ic_type = Fixed\<rparr>)
   \<and> (\<forall>t \<in> set CALENDAR_INTERVALS \<inter> set FIXED_INTERVALS.
         getIntervalConfig (Some t) = \<lparr>ic_interval = t, ic_type = Calendar\<rparr>)"
proof (intro conjI ballI)
  show "set CALENDAR_INTERVALS \<inter> set FIXED_INTERVALS = {''1m'', ''1h'', ''1d'', ''1w''}"
    by (rule calendar_inter_fixed)
next
  fix t assume "t \<in> set FIXED_INTERVALS - set CALENDAR_INTERVALS"
  then show "getIntervalConfig (Some t) = \<lparr>ic_interval = t, ic_type = Fixed\<rparr>"
    using fixed_nonempty [of t] by (simp add: getIntervalConfig_def)
next
  fix t assume "t \<in> set CALENDAR_INTERVALS \<inter> set FIXED_INTERVALS"
  then show "getIntervalConfig (Some t) = \<lparr>ic_interval = t, ic_type = Calendar\<rparr>"
    using calendar_nonempty [of t] by (simp add: getIntervalConfig_def)
qed

theorem fixed_only_classified_fixed_witness:
  "''15m'' \<in> set FIXED_INTERVALS - set CALENDAR_INTERVALS
   \<and> getIntervalConfig (Some ''15m'') = \<lparr>ic_interval = ''15m'', ic_type = Fixed\<rparr>
   \<and> ''1d'' \<in> set CALENDAR_INTERVALS \<inter> set FIXED_INTERVALS
   \<and> getIntervalConfig (Some ''1d'') = \<lparr>ic_interval = ''1d'', ic_type = Calendar\<rparr>"
proof -
  have a: "''15m'' \<in> set FIXED_INTERVALS - set CALENDAR_INTERVALS"
    by (simp add: CALENDAR_INTERVALS_def FIXED_INTERVALS_def)
  have b: "''1d'' \<in> set CALENDAR_INTERVALS \<inter> set FIXED_INTERVALS"
    by (simp add: CALENDAR_INTERVALS_def FIXED_INTERVALS_def)
  from a b fixed_only_classified_fixed show ?thesis by blast
qed

text \<open>
  Claim C5: the classifier is a total function whose result type has no error case. Every
  token of the calendar whitelist is returned as (token, Calendar); an absent token, the
  empty token and every token in neither whitelist, such as 3m, give the default
  (1h, Calendar).
\<close>

theorem classify_total_with_default:
  "(\<forall>t \<in> set CALENDAR_INTERVALS.
       getIntervalConfig (Some t) = \<lparr>ic_interval = t, ic_type = Calendar\<rparr>)
   \<and> getIntervalConfig None = \<lparr>ic_interval = ''1h'', ic_type = Calendar\<rparr>
   \<and> getIntervalConfig (Some []) = \<lparr>ic_interval = ''1h'', ic_type = Calendar\<rparr>
   \<and> (\<forall>t. t \<notin> set CALENDAR_INTERVALS \<and> t \<notin> set FIXED_INTERVALS \<longrightarrow>
         getIntervalConfig (Some t) = \<lparr>ic_interval = ''1h'', ic_type = Calendar\<rparr>)
   \<and> getIntervalConfig (Some ''3m'') = \<lparr>ic_interval = ''1h'', ic_type = Calendar\<rparr>"
proof (intro conjI ballI allI impI)
  fix t assume "t \<in> set CALENDAR_INTERVALS"
  then show "getIntervalConfig (Some t) = \<lparr>ic_interval = t, ic_type = Calendar\<rparr>"
    using calendar_nonempty [of t] by (simp add: getIntervalConfig_def)
next
  show "getIntervalConfig None = \<lparr>ic_interval = ''1h'', ic_type = Calendar\<rparr>"
    by (simp add: getIntervalConfig_def)
next
  show "getIntervalConfig (Some []) = \<lparr>ic_interval = ''1h'', ic_type = Calendar\<rparr>"
    by (simp add: getIntervalConfig_def)
next
  fix t assume "t \<notin> set CALENDAR_INTERVALS \<and> t \<notin> set FIXED_INTERVALS"
  then show "getIntervalConfig (Some t) = \<lparr>ic_interval = ''1h'', ic_type = Calendar\<rparr>"
    by (simp add: getIntervalConfig_def)
next
  show "getIntervalConfig (Some ''3m'') = \<lparr>ic_interval = ''1h'', ic_type = Calendar\<rparr>"
    by (simp add: getIntervalConfig_def CALENDAR_INTERVALS_def FIXED_INTERVALS_def)
qed

theorem classify_total_with_default_witness:
  "''1M'' \<in> set CALENDAR_INTERVALS
   \<and> getIntervalConfig (Some ''1M'') = \<lparr>ic_interval = ''1M'', ic_type = Calendar\<rparr>
   \<and> ''90s'' \<notin> set CALENDAR_INTERVALS \<and> ''90s'' \<notin> set FIXED_INTERVALS
   \<and> getIntervalConfig (Some ''90s'') = \<lparr>ic_interval = ''1h'', ic_type = Calendar\<rparr>"
proof -
  have a: "''1M'' \<in> set CALENDAR_INTERVALS"
    by (simp add: CALENDAR_INTERVALS_def)
  have b: "''90s'' \<notin> set CALENDAR_INTERVALS \<and> ''90s'' \<notin> set FIXED_INTERVALS"
    by (simp add: CALENDAR_INTERVALS_def FIXED_INTERVALS_def)
  from a b classify_total_with_default show ?thesis by blast
qed

text \<open>
  Claim C10: the interval of the request sent to the store and the interval of the
  response are a token of one of the two whitelists; a token of the query that is in
  neither is not echoed, the response then says 1h.
\<close>

theorem interval_always_whitelisted:
  "(\<forall>req \<in> set (searched (get_datapoints_histogram baseConfig srv host query)).
      \<exists>t \<in> set CALENDAR_INTERVALS \<union> set FIXED_INTERVALS. requested_interval req = JStr t)
   \<and> (\<forall>r. sent (replied (get_datapoints_histogram baseConfig srv host query)) = Histogram r \<longrightarrow>
         interval r \<in> set CALENDAR_INTERVALS \<union> set FIXED_INTERVALS
         \<and> (\<forall>t. q_interval query = Some t \<and> t \<notin> set CALENDAR_INTERVALS
                  \<and> t \<notin> set FIXED_INTERVALS \<longrightarrow> interval r = ''1h''))"
proof (intro conjI ballI allI impI)
  fix req
  assume "req \<in> set (searched (get_datapoints_histogram baseConfig srv host query))"
  from searched_request [OF this]
  have "requested_interval req = JStr (ic_interval (intervalConfig_of query))"
    by (auto simp: requested_interval_request_of)
  moreover have "ic_interval (intervalConfig_of query)
      \<in> set CALENDAR_INTERVALS \<union> set FIXED_INTERVALS"
    unfolding intervalConfig_of_def by (rule interval_in_whitelists)
  ultimately show "\<exists>t \<in> set CALENDAR_INTERVALS \<union> set FIXED_INTERVALS.
      requested_interval req = JStr t"
    by blast
next
  fix r
  assume "sent (replied (get_datapoints_histogram baseConfig srv host query)) = Histogram r"
  then have "try_block baseConfig srv host query = Inr r"
    by (simp add: sent_Histogram_iff)
  from try_block_fields [OF this]
  have i: "interval r = ic_interval (intervalConfig_of query)" by blast
  show "interval r \<in> set CALENDAR_INTERVALS \<union> set FIXED_INTERVALS"
    unfolding i intervalConfig_of_def by (rule interval_in_whitelists)
  fix t
  assume "q_interval query = Some t \<and> t \<notin> set CALENDAR_INTERVALS \<and> t \<notin> set FIXED_INTERVALS"
  then show "interval r = ''1h''"
    unfolding i by (simp add: intervalConfig_of_unknown)
qed

theorem interval_always_whitelisted_witness:
  "q_interval unknown_interval_query = Some ''3m''
   \<and> ''3m'' \<notin> set CALENDAR_INTERVALS \<and> ''3m'' \<notin> set FIXED_INTERVALS
   \<and> ''1h'' \<in> set CALENDAR_INTERVALS \<union> set FIXED_INTERVALS
   \<and> searched (get_datapoints_histogram None (example_server (store_answering five_hits))
         example_host unknown_interval_query)
       = [request_of None (example_server (store_answering five_hits)) unknown_interval_query
            \<lparr>gte = ''2024-01-01T00:00:00.000Z'', lte = ''2024-01-02T00:00:00.000Z''\<rparr>]
   \<and> requested_interval
        (request_of None (example_server (store_answering five_hits)) unknown_interval_query
            \<lparr>gte = ''2024-01-01T00:00:00.000Z'', lte = ''2024-01-02T00:00:00.000Z''\<rparr>)
       = JStr ''1h''
   \<and> sent (replied (get_datapoints_histogram None (example_server (store_answering five_hits))
         example_host unknown_interval_query))
       = Histogram
         \<lparr>query_time_ms = 0, scope = ''tlosusd'', contract = ''delphioracle'', table = ''datapoints'',
          interval = ''1h'',
          time_range = \<lparr>from_ts = ''2024-01-01T00:00:00.000Z'', to_ts = ''2024-01-02T00:00:00.000Z''\<rparr>,
          total_documents = JNum 5, histogram = []\<rparr>"
proof -
  have a: "q_interval unknown_interval_query = Some ''3m''"
    by (simp add: unknown_interval_query_def example_query_def)
  have b: "''3m'' \<notin> set CALENDAR_INTERVALS \<and> ''3m'' \<notin> set FIXED_INTERVALS"
    by (simp add: CALENDAR_INTERVALS_def FIXED_INTERVALS_def)
  have c: "''1h'' \<in> set CALENDAR_INTERVALS \<union> set FIXED_INTERVALS"
    by (simp add: CALENDAR_INTERVALS_def)
  note out = five_hits_outcome [OF unknown_interval_timeRange, of None]
  from interval_always_whitelisted [of None "example_server (store_answering five_hits)"
      example_host unknown_interval_query] a b c out
  show ?thesis
    by (simp add: requested_interval_request_of example_parameters example_intervals)
qed

subsection \<open>The time window\<close>

text \<open>
  Claim C3, as stated, fails: the bounds 2024-01-01T00:00:00Z and 2024-01-02T00:00:00Z
  are parsed and written back by \<open>toISOString\<close>, which always writes the milliseconds, so
  the resolved bounds are not the strings supplied.
\<close>

theorem window_not_echoed_counterexample:
  "q_after january_query = Some ''2024-01-01T00:00:00Z''
   \<and> q_before january_query = Some ''2024-01-02T00:00:00Z''
   \<and> build_timeRange example_host january_query =
        Inr \<lparr>gte = ''2024-01-01T00:00:00.000Z'', lte = ''2024-01-02T00:00:00.000Z''\<rparr>
   \<and> ''2024-01-01T00:00:00.000Z'' \<noteq> ''2024-01-01T00:00:00Z''
   \<and> ''2024-01-02T00:00:00.000Z'' \<noteq> ''2024-01-02T00:00:00Z''"
  using january_timeRange by (simp add: january_query_def example_query_def)

text \<open>
  Claim C3, amended: with after = 2024-01-01T00:00:00Z and before = 2024-01-02T00:00:00Z
  the resolved window is the same two instants in the canonical form with milliseconds,
  2024-01-01T00:00:00.000Z and 2024-01-02T00:00:00.000Z; these are the bounds of the range
  filter of the one request sent to the store and the time range of every response.
\<close>

theorem window_in_canonical_form:
  assumes "q_after query = Some ''2024-01-01T00:00:00Z''"
    and "q_before query = Some ''2024-01-02T00:00:00Z''"
  shows "build_timeRange host query =
           Inr \<lparr>gte = ''2024-01-01T00:00:00.000Z'', lte = ''2024-01-02T00:00:00.000Z''\<rparr>
     \<and> length (searched (get_datapoints_histogram baseConfig srv host query)) = 1
     \<and> (\<forall>req \<in> set (searched (get_datapoints_histogram baseConfig srv host query)).
           hd (must_clauses req) =
             range_clause ''2024-01-01T00:00:00.000Z'' ''2024-01-02T00:00:00.000Z'')
     \<and> (\<forall>r. sent (replied (get_datapoints_histogram baseConfig srv host query)) = Histogram r \<longrightarrow>
           time_range r =
             \<lparr>from_ts = ''2024-01-01T00:00:00.000Z'', to_ts = ''2024-01-02T00:00:00.000Z''\<rparr>)"
proof -
  let ?tr = "\<lparr>gte = ''2024-01-01T00:00:00.000Z'', lte = ''2024-01-02T00:00:00.000Z''\<rparr>"
  have tr: "build_timeRange host query = Inr ?tr"
    using assms by (rule build_timeRange_january)
  have one: "length (searched (get_datapoints_histogram baseConfig srv host query)) = 1"
    by (simp add: searched_eq requests_sent_def tr)
  have req: "hd (must_clauses req) =
      range_clause ''2024-01-01T00:00:00.000Z'' ''2024-01-02T00:00:00.000Z''"
    if "req \<in> set (searched (get_datapoints_histogram baseConfig srv host query))" for req
    using searched_request [OF that] tr by (auto simp: must_clauses_request_of)
  have resp: "time_range r =
      \<lparr>from_ts = ''2024-01-01T00:00:00.000Z'', to_ts = ''2024-01-02T00:00:00.000Z''\<rparr>"
    if "sent (replied (get_datapoints_histogram baseConfig srv host query)) = Histogram r" for r
  proof -
    from that have "try_block baseConfig srv host query = Inr r"
      by (simp add: sent_Histogram_iff)
    from try_block_fields [OF this] tr show ?thesis by auto
  qed
  from tr one req resp show ?thesis by blast
qed

theorem window_in_canonical_form_witness:
  "q_after january_query = Some ''2024-01-01T00:00:00Z''
   \<and> q_before january_query = Some ''2024-01-02T00:00:00Z''
   \<and> searched (get_datapoints_histogram None (example_server (store_answering five_hits))
         example_host january_query)
       = [request_of None (example_server (store_answering five_hits)) january_query
            \<lparr>gte = ''2024-01-01T00:00:00.000Z'', lte = ''2024-01-02T00:00:00.000Z''\<rparr>]
   \<and> hd (must_clauses (request_of None (example_server (store_answering five_hits)) january_query
            \<lparr>gte = ''2024-01-01T00:00:00.000Z'', lte = ''2024-01-02T00:00:00.000Z''\<rparr>))
       = range_clause ''2024-01-01T00:00:00.000Z'' ''2024-01-02T00:00:00.000Z''
   \<and> sent (replied (get_datapoints_histogram None (example_server (store_answering five_hits))
         example_host january_query))
       = Histogram
         \<lparr>query_time_ms = 0, scope = ''tlosusd'', contract = ''delphioracle'', table = ''datapoints'',
          interval = ''1h'',
          time_range = \<lparr>from_ts = ''2024-01-01T00:00:00.000Z'', to_ts = ''2024-01-02T00:00:00.000Z''\<rparr>,
          total_documents = JNum 5, histogram = []\<rparr>"
proof -
  have a: "q_after january_query = Some ''2024-01-01T00:00:00Z''"
    and b: "q_before january_query = Some ''2024-01-02T00:00:00Z''"
    by (simp_all add: january_query_def example_query_def)
  note out = five_hits_outcome [OF january_timeRange, of None]
  from window_in_canonical_form [OF a b, of example_host None
      "example_server (store_answering five_hits)"] a b out
  show ?thesis by (simp add: example_parameters example_intervals)
qed

text \<open>
  Claim C7, as stated, fails: the handler reads the clock twice, once for each missing
  bound. With a first reading of 1704067200000 and a second one a millisecond later, the
  lower bound is the first reading minus 24 hours and the upper bound is the second
  reading; neither reading is a single instant that gives both bounds.
\<close>

theorem two_clock_readings_counterexample:
  "q_after default_query = None \<and> q_before default_query = None
   \<and> clock example_host 0 = 1704067200000
   \<and> clock example_host 1 = 1704067200001
   \<and> build_timeRange example_host default_query =
       Inr \<lparr>gte = ''2023-12-31T00:00:00.000Z'', lte = ''2024-01-01T00:00:00.001Z''\<rparr>
   \<and> toISOString (Date_of_number (clock example_host 0)) = Inr ''2024-01-01T00:00:00.000Z''
   \<and> toISOString (Date_of_number (clock example_host 1 - 24 * 60 * 60 * 1000))
       = Inr ''2023-12-31T00:00:00.001Z''
   \<and> ''2024-01-01T00:00:00.001Z'' \<noteq> ''2024-01-01T00:00:00.000Z''
   \<and> ''2023-12-31T00:00:00.000Z'' \<noteq> ''2023-12-31T00:00:00.001Z''"
  by (simp add: default_timeRange)
    (simp add: default_query_def example_query_def example_host_def ticking_clock_def
      toISOString_def Date_of_number_def TimeClip_def
      iso_first_of_january iso_last_of_december_1)

text \<open>
  Claim C7, amended: when the request supplies no after and no before, the lower bound is
  the first reading of the clock minus 24 hours and the upper bound is the second reading
  of the clock, each written in the canonical form (the readings being time values); the
  request's range filter and the response's time range carry these two strings.
\<close>

theorem default_window_from_two_readings:
  assumes "\<not> truthy_str (q_after query)" and "\<not> truthy_str (q_before query)"
    and "\<bar>clock host 0 - 24 * 60 * 60 * 1000\<bar> \<le> 8640000000000000"
    and "\<bar>clock host 1\<bar> \<le> 8640000000000000"
  shows "build_timeRange host query =
           Inr \<lparr>gte = iso_string (clock host 0 - 24 * 60 * 60 * 1000),
                lte = iso_string (clock host 1)\<rparr>
     \<and> (\<forall>req \<in> set (searched (get_datapoints_histogram baseConfig srv host query)).
           hd (must_clauses req) =
             range_clause (iso_string (clock host 0 - 24 * 60 * 60 * 1000))
               (iso_string (clock host 1)))
     \<and> (\<forall>r. sent (replied (get_datapoints_histogram baseConfig srv host query)) = Histogram r \<longrightarrow>
           time_range r =
             \<lparr>from_ts = iso_string (clock host 0 - 24 * 60 * 60 * 1000),
              to_ts = iso_string (clock host 1)\<rparr>)"
proof -
  have tr: "build_timeRange host query =
           Inr \<lparr>gte = iso_string (clock host 0 - 24 * 60 * 60 * 1000),
                lte = iso_string (clock host 1)\<rparr>"
    using assms by (rule build_timeRange_default)
  have req: "hd (must_clauses req) =
             range_clause (iso_string (clock host 0 - 24 * 60 * 60 * 1000))
               (iso_string (clock host 1))"
    if "req \<in> set (searched (get_datapoints_histogram baseConfig srv host query))" for req
    using searched_request [OF that] tr by (auto simp: must_clauses_request_of)
  have resp: "time_range r =
             \<lparr>from_ts = iso_string (clock host 0 - 24 * 60 * 60 * 1000),
              to_ts = iso_string (clock host 1)\<rparr>"
    if "sent (replied (get_datapoints_histogram baseConfig srv host query)) = Histogram r" for r
  proof -
    from that have "try_block baseConfig srv host query = Inr r"
      by (simp add: sent_Histogram_iff)
    from try_block_fields [OF this] tr show ?thesis by auto
  qed
  from tr req resp show ?thesis by blast
qed

theorem default_window_from_two_readings_witness:
  "\<not> truthy_str (q_after default_query) \<and> \<not> truthy_str (q_before default_query)
   \<and> \<bar>clock example_host 0 - 24 * 60 * 60 * 1000\<bar> \<le> 8640000000000000
   \<and> \<bar>clock example_host 1\<bar> \<le> 8640000000000000
   \<and> iso_string (clock example_host 0 - 24 * 60 * 60 * 1000) = ''2023-12-31T00:00:00.000Z''
   \<and> iso_string (clock example_host 1) = ''2024-01-01T00:00:00.001Z''
   \<and> searched (get_datapoints_histogram None (example_server (store_answering five_hits))
         example_host default_query)
       = [request_of None (example_server (store_answering five_hits)) default_query
            \<lparr>gte = ''2023-12-31T00:00:00.000Z'', lte = ''2024-01-01T00:00:00.001Z''\<rparr>]
   \<and> hd (must_clauses (request_of None (example_server (store_answering five_hits)) default_query
            \<lparr>gte = ''2023-12-31T00:00:00.000Z'', lte = ''2024-01-01T00:00:00.001Z''\<rparr>))
       = range_clause ''2023-12-31T00:00:00.000Z'' ''2024-01-01T00:00:00.001Z''
   \<and> sent (replied (get_datapoints_histogram None (example_server (store_answering five_hits))
         example_host default_query))
       = Histogram
         \<lparr>query_time_ms = 0, scope = ''tlosusd'', contract = ''delphioracle'', table = ''datapoints'',
          interval = ''1h'',
          time_range = \<lparr>from_ts = ''2023-12-31T00:00:00.000Z'', to_ts = ''2024-01-01T00:00:00.001Z''\<rparr>,
          total_documents = JNum 5, histogram = []\<rparr>"
proof -
  have a: "\<not> truthy_str (q_after default_query)" and b: "\<not> truthy_str (q_before default_query)"
    by (simp_all add: default_query_def example_query_def truthy_str_def)
  have c: "\<bar>clock example_host 0 - 24 * 60 * 60 * 1000\<bar> \<le> 8640000000000000"
    and d: "\<bar>clock example_host 1\<bar> \<le> 8640000000000000"
    by (simp_all add: example_host_def ticking_clock_def)
  have e: "iso_string (clock example_host 0 - 24 * 60 * 60 * 1000) = ''2023-12-31T00:00:00.000Z''"
    and f: "iso_string (clock example_host 1) = ''2024-01-01T00:00:00.001Z''"
    by (simp_all add: example_host_def ticking_clock_def iso_last_of_december iso_first_of_january_1)
  note out = five_hits_outcome [OF default_timeRange, of None]
  from default_window_from_two_readings [OF a b c d, of None
      "example_server (store_answering five_hits)"] a b c d e f out
  show ?thesis
    by (simp add: must_clauses_request_of example_parameters example_intervals)
qed

subsection \<open>Parameters\<close>



subsection \<open>Shaping the response\<close>

text \<open>
  Claim C2 is not what the code does for a statistic whose value is 0. The store's answer
  \<open>zero_results\<close> has one bucket of two documents with average, minimum, maximum and
  median 0; the response gives \<open>null\<close> for all four, since \<open>value || null\<close> takes 0 for a
  missing value.
\<close>

theorem zero_statistic_becomes_null:
  "replied (get_datapoints_histogram None (example_server (store_answering zero_results))
      example_host january_query) =
     \<lparr>status = 200, sent = Histogram
       \<lparr>query_time_ms = 0, scope = ''tlosusd'', contract = ''delphioracle'', table = ''datapoints'',
        interval = ''1h'',
        time_range = \<lparr>from_ts = ''2024-01-01T00:00:00.000Z'', to_ts = ''2024-01-02T00:00:00.000Z''\<rparr>,
        total_documents = JNum 2,
        histogram =
          [\<lparr>timestamp = JStr ''2024-01-01T00:00:00.000Z'', doc_count = JNum 2,
            average_price = JNull, min_price = JNull, max_price = JNull,
            median_price = JNull\<rparr>]\<rparr>\<rparr>"
proof -
  have eh: "extract_histogram zero_results =
      Inr [\<lparr>timestamp = JStr ''2024-01-01T00:00:00.000Z'', doc_count = JNum 2,
            average_price = JNull, min_price = JNull, max_price = JNull,
            median_price = JNull\<rparr>]"
    by (simp add: extract_histogram_def zero_results_def map_zero_bucket)
  have pr: "process_results (scope_of january_query) (contractName_of None) (tableName_of None)
       (intervalConfig_of january_query)
       \<lparr>gte = ''2024-01-01T00:00:00.000Z'', lte = ''2024-01-02T00:00:00.000Z''\<rparr> zero_results =
     Inr \<lparr>query_time_ms = 0, scope = ''tlosusd'', contract = ''delphioracle'', table = ''datapoints'',
        interval = ''1h'',
        time_range = \<lparr>from_ts = ''2024-01-01T00:00:00.000Z'', to_ts = ''2024-01-02T00:00:00.000Z''\<rparr>,
        total_documents = JNum 2,
        histogram =
          [\<lparr>timestamp = JStr ''2024-01-01T00:00:00.000Z'', doc_count = JNum 2,
            average_price = JNull, min_price = JNull, max_price = JNull,
            median_price = JNull\<rparr>]\<rparr>"
    by (simp add: process_results_def eh example_parameters example_intervals)
      (simp add: zero_results_def js_or_def)
  show ?thesis
    by (simp add: store_answer_outcome [OF january_timeRange pr])
qed

text \<open>
  Claim C6: when the store's answer has no aggregation section, or a histogram with zero
  buckets, the reply has status 200, its histogram is empty and its total is the total the
  store reports (a number, or any other truthy value such as an object), 0 when it
  reports none.
\<close>

theorem no_buckets_empty_histogram:
  assumes tr: "build_timeRange host query = Inr tr"
    and res: "elastic_search srv (request_of baseConfig srv query tr) = Inr (JObj kvs)"
    and nb: "opt_prop (JObj kvs) ''aggregations'' = JUndefined
             \<or> opt_prop (opt_prop (opt_prop (JObj kvs) ''aggregations'') ''histogram'') ''buckets''
                 = JArr []"
  shows "\<exists>r. replied (get_datapoints_histogram baseConfig srv host query)
                = \<lparr>status = 200, sent = Histogram r\<rparr>
     \<and> histogram r = []
     \<and> total_documents r = js_or (opt_prop (opt_prop (JObj kvs) ''hits'') ''total'') (JNum 0)
     \<and> (\<forall>n. opt_prop (opt_prop (JObj kvs) ''hits'') ''total'' = JNum n \<longrightarrow>
           total_documents r = JNum n)
     \<and> (truthy (opt_prop (opt_prop (JObj kvs) ''hits'') ''total'') \<longrightarrow>
           total_documents r = opt_prop (opt_prop (JObj kvs) ''hits'') ''total'')
     \<and> (opt_prop (opt_prop (JObj kvs) ''hits'') ''total'' = JUndefined \<longrightarrow>
           total_documents r = JNum 0)"
proof -
  have eh: "extract_histogram (JObj kvs) = Inr []"
    using nb by (auto simp: extract_histogram_def Let_def)
  define r where "r = \<lparr>query_time_ms = 0, scope = scope_of query,
       contract = contractName_of baseConfig, table = tableName_of baseConfig,
       interval = ic_interval (intervalConfig_of query),
       time_range = \<lparr>from_ts = gte tr, to_ts = lte tr\<rparr>,
       total_documents = js_or (opt_prop (opt_prop (JObj kvs) ''hits'') ''total'') (JNum 0),
       histogram = []\<rparr>"
  have "try_block baseConfig srv host query = Inr r"
    by (simp add: try_block_def tr res process_results_def eh r_def)
  then have "replied (get_datapoints_histogram baseConfig srv host query)
                = \<lparr>status = 200, sent = Histogram r\<rparr>"
    by (simp add: get_datapoints_histogram_def)
  moreover have "histogram r = []"
    and "total_documents r = js_or (opt_prop (opt_prop (JObj kvs) ''hits'') ''total'') (JNum 0)"
    by (simp_all add: r_def)
  moreover have "\<forall>n. opt_prop (opt_prop (JObj kvs) ''hits'') ''total'' = JNum n \<longrightarrow>
           total_documents r = JNum n"
    by (simp add: r_def js_or_def)
  moreover have "truthy (opt_prop (opt_prop (JObj kvs) ''hits'') ''total'') \<longrightarrow>
           total_documents r = opt_prop (opt_prop (JObj kvs) ''hits'') ''total''"
    by (simp add: r_def js_or_def)
  moreover have "opt_prop (opt_prop (JObj kvs) ''hits'') ''total'' = JUndefined \<longrightarrow>
           total_documents r = JNum 0"
    by (simp add: r_def js_or_def)
  ultimately show ?thesis by blast
qed

theorem no_buckets_empty_histogram_witness:
  "build_timeRange example_host january_query =
       Inr \<lparr>gte = ''2024-01-01T00:00:00.000Z'', lte = ''2024-01-02T00:00:00.000Z''\<rparr>
   \<and> elastic_search (example_server (store_answering five_hits))
        (request_of None (example_server (store_answering five_hits)) january_query
           \<lparr>gte = ''2024-01-01T00:00:00.000Z'', lte = ''2024-01-02T00:00:00.000Z''\<rparr>)
       = Inr (JObj [(''hits'', JObj [(''total'', JNum 5)])])
   \<and> opt_prop (JObj [(''hits'', JObj [(''total'', JNum 5)])]) ''aggregations'' = JUndefined
   \<and> opt_prop (opt_prop (JObj [(''hits'', JObj [(''total'', JNum 5)])]) ''hits'') ''total'' = JNum 5
   \<and> replied (get_datapoints_histogram None (example_server (store_answering five_hits))
        example_host january_query) =
        \<lparr>status = 200, sent = Histogram
         \<lparr>query_time_ms = 0, scope = ''tlosusd'', contract = ''delphioracle'', table = ''datapoints'',
          interval = ''1h'',
          time_range = \<lparr>from_ts = ''2024-01-01T00:00:00.000Z'', to_ts = ''2024-01-02T00:00:00.000Z''\<rparr>,
          total_documents = JNum 5, histogram = []\<rparr>\<rparr>"
proof -
  let ?srv = "example_server (store_answering five_hits)"
  let ?tr = "\<lparr>gte = ''2024-01-01T00:00:00.000Z'', lte = ''2024-01-02T00:00:00.000Z''\<rparr>"
  let ?kvs = "[(''hits'', JObj [(''total'', JNum 5)])]"
  have res: "elastic_search ?srv (request_of None ?srv january_query ?tr) = Inr (JObj ?kvs)"
    by (simp add: example_server_def store_answering_def five_hits_def)
  have nb: "opt_prop (JObj ?kvs) ''aggregations'' = JUndefined
     \<or> opt_prop (opt_prop (opt_prop (JObj ?kvs) ''aggregations'') ''histogram'') ''buckets'' = JArr []"
    by simp
  note out = five_hits_outcome [OF january_timeRange, of None]
  from no_buckets_empty_histogram [OF january_timeRange res nb] res january_timeRange out
  show ?thesis by (simp add: example_parameters example_intervals)
qed

subsection \<open>Failures\<close>

text \<open>
  What the \<open>catch\<close> block does with a thrown value that is neither \<open>null\<close> nor
  \<open>undefined\<close>, whichever step of the try block threw it: it replies with status 500, the
  error field Internal server error and the value's \<open>message\<close>, logs the value, and
  nothing escapes the handler. Every error the runtime raises in the try block is such a
  value.
\<close>

lemma get_prop_not_nullish:
  "e \<noteq> JNull \<Longrightarrow> e \<noteq> JUndefined \<Longrightarrow> get_prop e k = Inr (opt_prop e k)"
  by (cases e) simp_all

lemma thrown_value_answered_500:
  assumes "try_block baseConfig srv host query = Inl e"
    and "e \<noteq> JNull" and "e \<noteq> JUndefined"
  shows "get_datapoints_histogram baseConfig srv host query =
     \<lparr>replied = \<lparr>status = 500,
                  sent = Failure \<lparr>error = ''Internal server error'',
                                   message = opt_prop e ''message''\<rparr>\<rparr>,
      logged = [e],
      searched = requests_sent baseConfig srv host query,
      escaped = None\<rparr>"
  using assms by (simp add: get_datapoints_histogram_def get_prop_not_nullish)

lemma store_failure_answered_500:
  "replied (get_datapoints_histogram None (example_server (store_failing connection_refused))
        example_host january_query) =
     \<lparr>status = 500,
      sent = Failure \<lparr>error = ''Internal server error'',
                       message = JStr ''connect ECONNREFUSED''\<rparr>\<rparr>"
proof -
  let ?srv = "example_server (store_failing connection_refused)"
  let ?tr = "\<lparr>gte = ''2024-01-01T00:00:00.000Z'', lte = ''2024-01-02T00:00:00.000Z''\<rparr>"
  have st: "elastic_search ?srv (request_of None ?srv january_query ?tr) = Inl connection_refused"
    by (simp add: example_server_def store_failing_def)
  have tb: "try_block None ?srv example_host january_query = Inl connection_refused"
    using january_timeRange st by (rule try_block_store_failure)
  have ne: "connection_refused \<noteq> JNull" "connection_refused \<noteq> JUndefined"
    by (simp_all add: connection_refused_def Error_object_def)
  have msg: "opt_prop connection_refused ''message'' = JStr ''connect ECONNREFUSED''"
    by (simp add: connection_refused_def Error_object_def)
  show ?thesis
    by (simp add: thrown_value_answered_500 [OF tb ne] msg)
qed

lemma bad_date_answered_500:
  "replied (get_datapoints_histogram baseConfig srv example_host bad_date_query) =
     \<lparr>status = 500,
      sent = Failure \<lparr>error = ''Internal server error'',
                       message = JStr ''Invalid time value''\<rparr>\<rparr>"
proof -
  have tb: "try_block baseConfig srv example_host bad_date_query =
      Inl (Error_object ''RangeError'' ''Invalid time value'')"
    by (simp add: try_block_def bad_date_timeRange)
  have ne: "Error_object ''RangeError'' ''Invalid time value'' \<noteq> JNull"
    "Error_object ''RangeError'' ''Invalid time value'' \<noteq> JUndefined"
    by (simp_all add: Error_object_def)
  show ?thesis
    by (simp add: thrown_value_answered_500 [OF tb ne]) (simp add: Error_object_def)
qed

text \<open>
  Claim C4 is not what the code does when the store rejects with \<open>null\<close>. The \<open>catch\<close>
  block reads \<open>error.message\<close> of the thrown value without a test, so on \<open>null\<close> it throws a
  TypeError itself: the handler sends no body, neither the error field nor the message,
  and the TypeError escapes the route handler.
\<close>

theorem null_rejection_escapes:
  "elastic_search (example_server (store_failing JNull))
       (request_of None (example_server (store_failing JNull)) january_query
          \<lparr>gte = ''2024-01-01T00:00:00.000Z'', lte = ''2024-01-02T00:00:00.000Z''\<rparr>) = Inl JNull
   \<and> try_block None (example_server (store_failing JNull)) example_host january_query = Inl JNull
   \<and> sent (replied (get_datapoints_histogram None (example_server (store_failing JNull))
        example_host january_query)) = Unsent
   \<and> logged (get_datapoints_histogram None (example_server (store_failing JNull))
        example_host january_query) = [JNull]
   \<and> escaped (get_datapoints_histogram None (example_server (store_failing JNull))
        example_host january_query) = Some (cannot_read ''null'' ''message'')
   \<and> opt_prop (cannot_read ''null'' ''message'') ''message''
        = JStr (''Cannot read properties of null (reading '' @ [CHR 0x27] @ ''message''
                  @ [CHR 0x27] @ '')'')"
proof -
  let ?srv = "example_server (store_failing JNull)"
  let ?tr = "\<lparr>gte = ''2024-01-01T00:00:00.000Z'', lte = ''2024-01-02T00:00:00.000Z''\<rparr>"
  have st: "elastic_search ?srv (request_of None ?srv january_query ?tr) = Inl JNull"
    by (simp add: example_server_def store_failing_def)
  have tb: "try_block None ?srv example_host january_query = Inl JNull"
    using january_timeRange st by (rule try_block_store_failure)
  have msg: "opt_prop (cannot_read ''null'' ''message'') ''message''
        = JStr (''Cannot read properties of null (reading '' @ [CHR 0x27] @ ''message''
                  @ [CHR 0x27] @ '')'')"
    by (simp add: cannot_read_def Error_object_def)
  show ?thesis
    using st tb msg by (simp add: get_datapoints_histogram_def)
qed

subsection \<open>The delta handler\<close>

text \<open>
  Claim C9, as stated, fails: the handler's guard is the truthiness of the three fields,
  and the number 0 is falsy. The payload of \<open>zero_value_delta\<close> has an owner, a median
  and the value 0; the handler returns the record as it was, with no nested object and
  with \<open>data\<close> still there.
\<close>

theorem zero_value_left_unchanged_counterexample:
  "map_of zero_value_delta ''data'' = Some zero_value_payload
   \<and> opt_prop zero_value_payload ''value'' = JNum 0
   \<and> opt_prop zero_value_payload ''median'' = JNum 2490
   \<and> opt_prop zero_value_payload ''owner'' = JStr ''oracle1''
   \<and> dh_table (hd (deltaHandlers empty_config)) = ''datapoints''
   \<and> dh_handler (hd (deltaHandlers empty_config)) zero_value_delta = Inr zero_value_delta
   \<and> map_of zero_value_delta ''@datapoints'' = None"
  by (simp add: deltaHandlers_def Let_def empty_config_def str_or_def delta_handler_def
      zero_value_delta_def zero_value_payload_def)

text \<open>
  Claim C9, amended: the plugin registers one delta handler, for the configured table. On
  a delta record whose \<open>data\<close> has truthy \<open>value\<close>, \<open>median\<close> and \<open>owner\<close> (present, and
  not 0, the empty string, null or false), the handler returns the record with the key
  \<open>@\<close> followed by the table name bound to an object of exactly the three fields owner,
  value and median, and without the key \<open>data\<close>; the other keys keep their values.
\<close>

theorem delta_handler_nests_payload:
  assumes h: "h \<in> set (deltaHandlers config)"
    and data: "map_of delta ''data'' = Some data"
    and v: "truthy (opt_prop data ''value'')"
    and m: "truthy (opt_prop data ''median'')"
    and ow: "truthy (opt_prop data ''owner'')"
  shows "dh_table h = str_or (cfg_table config) ''datapoints''
     \<and> (\<exists>delta'. dh_handler h delta = Inr delta'
          \<and> map_of delta' (''@'' @ dh_table h) =
               Some (JObj [(''owner'', opt_prop data ''owner''),
                           (''value'', opt_prop data ''value''),
                           (''median'', opt_prop data ''median'')])
          \<and> map_of delta' ''data'' = None
          \<and> (\<forall>k. k \<noteq> ''data'' \<and> k \<noteq> ''@'' @ dh_table h \<longrightarrow> map_of delta' k = map_of delta k))"
proof -
  let ?t = "str_or (cfg_table config) ''datapoints''"
  from h have t: "dh_table h = ?t" and hd: "dh_handler h = delta_handler ?t"
    by (auto simp: deltaHandlers_def Let_def)
  let ?d = "delete_prop
            (set_prop delta (''@'' @ ?t)
               (JObj [(''owner'', opt_prop data ''owner''),
                      (''value'', opt_prop data ''value''),
                      (''median'', opt_prop data ''median'')]))
            ''data''"
  have run: "dh_handler h delta = Inr ?d"
    unfolding hd using data v m ow by (rule delta_handler_rewrites)
  have "map_of ?d (''@'' @ ?t) =
               Some (JObj [(''owner'', opt_prop data ''owner''),
                           (''value'', opt_prop data ''value''),
                           (''median'', opt_prop data ''median'')])"
    by (simp add: map_of_delete_prop map_of_set_prop)
  moreover have "map_of ?d ''data'' = None"
    by (simp add: map_of_delete_prop)
  moreover have "\<forall>k. k \<noteq> ''data'' \<and> k \<noteq> ''@'' @ ?t \<longrightarrow> map_of ?d k = map_of delta k"
    by (simp add: map_of_delete_prop map_of_set_prop)
  ultimately show ?thesis using t run by auto
qed

theorem delta_handler_nests_payload_witness:
  "deltaHandlers empty_config \<noteq> []
   \<and> map_of example_delta ''data'' = Some example_payload
   \<and> truthy (opt_prop example_payload ''value'')
   \<and> truthy (opt_prop example_payload ''median'')
   \<and> truthy (opt_prop example_payload ''owner'')
   \<and> dh_table (hd (deltaHandlers empty_config)) = ''datapoints''
   \<and> dh_handler (hd (deltaHandlers empty_config)) example_delta =
       Inr [(''code'', JStr ''delphioracle''), (''table'', JStr ''datapoints''),
            (''scope'', JStr ''tlosusd''),
            (''@datapoints'', JObj [(''owner'', JStr ''oracle1''), (''value'', JNum 2500),
                                    (''median'', JNum 2490)])]"
proof -
  have h: "hd (deltaHandlers empty_config) \<in> set (deltaHandlers empty_config)"
    by (simp add: deltaHandlers_def Let_def)
  have ne: "deltaHandlers empty_config \<noteq> []"
    by (simp add: deltaHandlers_def Let_def)
  have data: "map_of example_delta ''data'' = Some example_payload"
    by (simp add: example_delta_def)
  have v: "truthy (opt_prop example_payload ''value'')"
    and m: "truthy (opt_prop example_payload ''median'')"
    and ow: "truthy (opt_prop example_payload ''owner'')"
    by (simp_all add: example_payload_def)
  have run: "dh_handler (hd (deltaHandlers empty_config)) example_delta =
       Inr [(''code'', JStr ''delphioracle''), (''table'', JStr ''datapoints''),
            (''scope'', JStr ''tlosusd''),
            (''@datapoints'', JObj [(''owner'', JStr ''oracle1''), (''value'', JNum 2500),
                                    (''median'', JNum 2490)])]"
    by (simp add: deltaHandlers_def Let_def empty_config_def str_or_def delta_handler_def
        example_delta_def example_payload_def delete_prop_def)
  from delta_handler_nests_payload [OF h data v m ow] ne data v m ow run
  show ?thesis by (simp add: empty_config_def str_or_def)
qed

end
